theory Spec2Isabelle
  imports Complex_Main
begin

section \<open>JavaScript values\<close>

text \<open>
  A JavaScript string is a sequence of UTF-16 code units; a code unit is modelled by its
  number. \<open>lit\<close> embeds an ASCII literal of the source.
\<close>

type_synonym jsstring = "nat list"

definition lit :: "string \<Rightarrow> jsstring" where
  "lit s = map of_char s"

text \<open>
  \<open>String.prototype.trim\<close> removes ECMAScript WhiteSpace and LineTerminator code
  points from both ends: TAB, LF, VT, FF, CR, SP, NBSP, U+1680, U+2000 to U+200A, U+2028,
  U+2029, U+202F, U+205F, U+3000 and U+FEFF.
\<close>

definition js_whitespace :: "nat \<Rightarrow> bool" where
  "js_whitespace c =
     (c \<in> {9, 10, 11, 12, 13, 32, 160, 5760, 8232, 8233, 8239, 8287, 12288, 65279}
      \<or> (8192 \<le> c \<and> c \<le> 8202))"

definition trim :: "jsstring \<Rightarrow> jsstring" where
  "trim s = rev (dropWhile js_whitespace (rev (dropWhile js_whitespace s)))"

text \<open>\<open>s.startsWith(p)\<close>.\<close>

definition startsWith :: "jsstring \<Rightarrow> jsstring \<Rightarrow> bool" where
  "startsWith s p = (take (length p) s = p)"

text \<open>
  The values \<open>JSON.parse\<close> produces, and \<open>undefined\<close> for a property that is not
  there. An object is its list of own properties (keys distinct after parsing).
\<close>

datatype jsval =
    JUndefined
  | JNull
  | JBool bool
  | JNum rat
  | JStr jsstring
  | JArr "jsval list"
  | JObj "(jsstring \<times> jsval) list"

text \<open>ToBoolean: what \<open>if (v)\<close> and \<open>!v\<close> test. (JSON has no NaN.)\<close>

fun truthy :: "jsval \<Rightarrow> bool" where
  "truthy JUndefined = False"
| "truthy JNull = False"
| "truthy (JBool b) = b"
| "truthy (JNum q) = (q \<noteq> 0)"
| "truthy (JStr s) = (s \<noteq> [])"
| "truthy (JArr _) = True"
| "truthy (JObj _) = True"

datatype js_error =
    TypeError
  | SyntaxError
  | InvalidStateError
  | NetworkFailure

text \<open>
  \<open>v.k\<close> for a property name \<open>k\<close> that no built-in prototype defines (such as
  \<open>translated\<close>): reading it from \<open>undefined\<close> or \<open>null\<close> throws a TypeError, an
  object gives its own property or \<open>undefined\<close>, every other value gives \<open>undefined\<close>.
\<close>

fun get_prop :: "jsval \<Rightarrow> jsstring \<Rightarrow> js_error + jsval" where
  "get_prop JUndefined k = Inl TypeError"
| "get_prop JNull k = Inl TypeError"
| "get_prop (JObj kvs) k = Inr (case map_of kvs k of None \<Rightarrow> JUndefined | Some v \<Rightarrow> v)"
| "get_prop v k = Inr JUndefined"

section \<open>The state of the Transcriber component\<close>

text \<open>The values \<open>setStatus\<close> is called with in App.jsx.\<close>

datatype status =
    Idle
  | NoSpeechApi
  | Listening
  | Translating
  | Translated
  | NetworkError
  | PermissionDenied
  | Error

text \<open>
  The \<open>useState\<close> cells and the refs of \<open>Transcriber\<close> (App.jsx lines 32 to 40).
  \<open>recognitionRef\<close> holds the address of a recognizer object, or \<open>None\<close> for null.
\<close>

record state =
  listening :: bool
  original :: jsstring
  translated :: jsval
  inputLang :: jsstring
  outputLang :: jsstring
  status :: status
  recognitionRef :: "nat option"
  lastResultRef :: jsstring

definition initial_state :: state where
  "initial_state =
     \<lparr>listening = False, original = [], translated = JStr [],
      inputLang = lit ''en-US'', outputLang = lit ''bn'', status = Idle,
      recognitionRef = None, lastResultRef = []\<rparr>"

subsection \<open>\<open>clearAll\<close> (lines 226 to 230)\<close>

definition clearAll :: "'a state_scheme \<Rightarrow> 'a state_scheme" where
  "clearAll s = s\<lparr>original := [], translated := JStr [], lastResultRef := []\<rparr>"

section \<open>The platform: speech recognition\<close>

text \<open>
  A \<open>SpeechRecognition\<close> object of the browser. \<open>started\<close> is the flag of the Web
  Speech API: \<open>start()\<close> has been called and no \<open>end\<close> event has fired since; calling
  \<open>start()\<close> on a started object throws InvalidStateError. \<open>capturing\<close> says that the
  session is active (listening to audio); \<open>stop()\<close> and \<open>abort()\<close> end the capture,
  and the object stays started until the platform delivers its \<open>end\<close> event.
  \<open>rec_calls\<close> records the calls that took effect.

  \<open>closure_original\<close> is not a property of the platform object: it is the value of
  \<open>original\<close> in the render whose \<open>createRecognition\<close> built the handlers. The
  handler \<open>rec.onresult\<close> (line 79) reads \<open>original\<close> from that closure, and
  \<open>createRecognition\<close> is called only by the effect with dependencies
  \<open>[inputLang]\<close> (line 109) and by \<open>toggleListening\<close> (lines 165 and 184).
\<close>

datatype rec_call = CallStart | CallStop | CallAbort

record recognizer =
  rec_lang :: jsstring
  closure_original :: jsstring
  started :: bool
  capturing :: bool
  rec_calls :: "rec_call list"

definition rec_start :: "recognizer \<Rightarrow> js_error + recognizer" where
  "rec_start r =
     (if started r then Inl InvalidStateError
      else Inr (r\<lparr>started := True, capturing := True, rec_calls := rec_calls r @ [CallStart]\<rparr>))"

definition rec_stop :: "recognizer \<Rightarrow> js_error + recognizer" where
  "rec_stop r = Inr (r\<lparr>capturing := False, rec_calls := rec_calls r @ [CallStop]\<rparr>)"

definition rec_abort :: "recognizer \<Rightarrow> js_error + recognizer" where
  "rec_abort r = Inr (r\<lparr>capturing := False, rec_calls := rec_calls r @ [CallAbort]\<rparr>)"

text \<open>
  A \<open>SpeechRecognitionEvent\<close>: \<open>ev.resultIndex\<close> and \<open>ev.results\<close>, each result
  with \<open>isFinal\<close> and the transcript of its first alternative
  (\<open>ev.results[i][0].transcript\<close>).
\<close>

record speech_result =
  isFinal :: bool
  transcript :: jsstring

record result_event =
  resultIndex :: nat
  results :: "speech_result list"

section \<open>The platform: speech synthesis, timers, fetch\<close>

record voice =
  voice_name :: jsstring
  voice_lang :: jsstring

record utterance =
  utter_text :: jsval
  utter_voice :: "voice option"
  utter_lang :: jsstring

datatype synth_call = CallCancel | CallSpeak utterance

record synth =
  speaking :: bool
  voices :: "voice list"
  synth_calls :: "synth_call list"

text \<open>
  A pending \<open>setTimeout\<close> of the debounce effect (lines 123 to 127): its id, the time
  in milliseconds at which it is due, and what its callback closes over: \<open>original\<close>
  and, through \<open>translateText\<close>, \<open>outputLang\<close> of the render that armed it.
\<close>

record timer =
  timer_id :: nat
  deadline :: nat
  timer_text :: jsstring
  timer_lang :: jsstring

text \<open>A call of \<open>fetch\<close> by \<open>translateText\<close>: the URL and the two fields of the body.\<close>

record fetch_request =
  url :: jsstring
  body_text :: jsstring
  body_outputLang :: jsstring

text \<open>
  What awaiting \<open>fetch\<close> and then \<open>resp.json()\<close> gives: \<open>fetch\<close> rejects (no
  connection), \<open>resp.json()\<close> rejects (the body is not JSON), or the parsed body. The
  HTTP status is not looked at by the client.
\<close>

datatype fetch_result = FetchRejected | JsonRejected | Body jsval

section \<open>The component in its environment\<close>

record world = state +
  has_api :: bool
  recs :: "recognizer list"
  synth :: "synth option"
  backend_url :: "jsstring option"
  clock :: nat
  timers :: "timer list"
  effect_timer :: "nat option"
  next_timer :: nat
  fetches :: "fetch_request list"

text \<open>
  \<open>has_api\<close> is \<open>hasSpeechRecognition()\<close>; \<open>recs\<close> is the heap of recognizer objects,
  addressed by position; \<open>synth\<close> is \<open>window.speechSynthesis\<close>; \<open>backend_url\<close> is
  \<open>import.meta.env.VITE_BACKEND_URL\<close>; \<open>effect_timer\<close> is the id the cleanup of the
  debounce effect holds; \<open>fetches\<close> logs the requests sent.
\<close>

definition rec_at :: "world \<Rightarrow> nat \<Rightarrow> recognizer option" where
  "rec_at w i = (if i < length (recs w) then Some (recs w ! i) else None)"

subsection \<open>\<open>createRecognition\<close> and its handlers (lines 48 to 100)\<close>

definition createRecognition :: "jsstring \<Rightarrow> world \<Rightarrow> nat option \<times> world" where
  "createRecognition lang w =
     (if \<not> has_api w then (None, w)
      else (Some (length (recs w)),
            w\<lparr>recs := recs w @
               [\<lparr>rec_lang = lang, closure_original = original w, started = False,
                 capturing = False, rec_calls = []\<rparr>]\<rparr>))"

definition onstart :: "'a state_scheme \<Rightarrow> 'a state_scheme" where
  "onstart s = s\<lparr>listening := True, status := Listening\<rparr>"

definition onend :: "'a state_scheme \<Rightarrow> 'a state_scheme" where
  "onend s =
     s\<lparr>listening := False,
       status := (if status s = NetworkError then status s else Idle)\<rparr>"

text \<open>The \<open>for\<close> loop of \<open>rec.onresult\<close> (lines 73 to 76), from index \<open>i\<close>.\<close>

function onresult_loop ::
  "nat \<Rightarrow> speech_result list \<Rightarrow> jsstring \<Rightarrow> jsstring \<Rightarrow> jsstring \<times> jsstring" where
  "onresult_loop i rs interim final =
     (if i < length rs then
        (if isFinal (rs ! i)
         then onresult_loop (Suc i) rs interim (final @ transcript (rs ! i) @ lit '' '')
         else onresult_loop (Suc i) rs (interim @ transcript (rs ! i)) final)
      else (interim, final))"
  by pat_completeness auto
termination
  by (relation "measure (\<lambda>(i, rs, interim, final). length rs - i)") auto

text \<open>
  \<open>rec.onresult\<close> of the recognizer at address \<open>rid\<close>. No event comes from an object
  that does not exist.
\<close>

definition onresult :: "nat \<Rightarrow> result_event \<Rightarrow> world \<Rightarrow> world" where
  "onresult rid ev w =
     (case rec_at w rid of
        None \<Rightarrow> w
      | Some r \<Rightarrow>
          (let (interim, final) = onresult_loop (resultIndex ev) (results ev) [] [];
               combined = trim (closure_original r @ lit '' '' @ final @ lit '' '' @ interim)
           in w\<lparr>lastResultRef := combined, original := combined\<rparr>))"

text \<open>\<open>try { rec.abort(); } catch (_) {}\<close> on the recognizer at \<open>rid\<close>.\<close>

definition try_abort :: "nat \<Rightarrow> world \<Rightarrow> world" where
  "try_abort rid w =
     (case rec_at w rid of
        None \<Rightarrow> w
      | Some r \<Rightarrow>
          (case rec_abort r of
             Inl _ \<Rightarrow> w
           | Inr r' \<Rightarrow> w\<lparr>recs := (recs w)[rid := r']\<rparr>))"

text \<open>
  \<open>rec.onerror\<close> of the recognizer at \<open>rid\<close>; \<open>e\<close> is \<open>e.error\<close>, or \<open>None\<close> when
  the event is missing (\<open>e && ...\<close>).
\<close>

definition onerror :: "nat \<Rightarrow> jsstring option \<Rightarrow> world \<Rightarrow> world" where
  "onerror rid e w =
     (if e = Some (lit ''network'') then try_abort rid (w\<lparr>status := NetworkError\<rparr>)
      else if e = Some (lit ''not-allowed'') then try_abort rid (w\<lparr>status := PermissionDenied\<rparr>)
      else w\<lparr>status := Error\<rparr>)"

subsection \<open>\<open>translateText\<close> (lines 131 to 154)\<close>

text \<open>
  Up to the first \<open>await\<close>: the status is set and the request is sent, with
  \<open>outputLang\<close> of the render whose \<open>translateText\<close> this is.
\<close>

definition translateText_dispatch :: "jsstring \<Rightarrow> jsstring \<Rightarrow> world \<Rightarrow> world" where
  "translateText_dispatch text lang w =
     (let backend = (case backend_url w of
                       None \<Rightarrow> lit ''http://localhost:3000''
                     | Some u \<Rightarrow> if u = [] then lit ''http://localhost:3000'' else u)
      in w\<lparr>status := Translating,
           fetches := fetches w @
             [\<lparr>url = backend @ lit ''/api/translate'', body_text = text,
               body_outputLang = lang\<rparr>]\<rparr>)"

definition quota_placeholder :: jsstring where
  "quota_placeholder =
     lit ''Translation failed, You exceeded your current quota, please check your plan and billing details.''"

definition error_placeholder :: jsstring where
  "error_placeholder = lit ''Translation error''"

text \<open>The body of the \<open>try\<close> once the response is there (lines 141 to 148).\<close>

definition translateText_try :: "fetch_result \<Rightarrow> 'a state_scheme \<Rightarrow> js_error + 'a state_scheme" where
  "translateText_try r s =
     (case r of
        FetchRejected \<Rightarrow> Inl NetworkFailure
      | JsonRejected \<Rightarrow> Inl SyntaxError
      | Body data \<Rightarrow>
          (case get_prop data (lit ''translated'') of
             Inl e \<Rightarrow> Inl e
           | Inr v \<Rightarrow>
               if truthy v then Inr (s\<lparr>translated := v, status := Translated\<rparr>)
               else Inr (s\<lparr>translated := JStr quota_placeholder, status := Error\<rparr>)))"

text \<open>
  The rest of \<open>translateText\<close>, with its \<open>catch\<close> (lines 149 to 153): how the promise
  of the async function settles, \<open>Inl\<close> for a rejection.
\<close>

definition translateText_response ::
  "fetch_result \<Rightarrow> 'a state_scheme \<Rightarrow> js_error + 'a state_scheme" where
  "translateText_response r s =
     (case translateText_try r s of
        Inl err \<Rightarrow> Inr (s\<lparr>translated := JStr error_placeholder, status := Error\<rparr>)
      | Inr s' \<Rightarrow> Inr s')"

subsection \<open>The debounce effect (lines 122 to 129)\<close>

definition clearTimeout :: "nat \<Rightarrow> world \<Rightarrow> world" where
  "clearTimeout i w = w\<lparr>timers := filter (\<lambda>tm. timer_id tm \<noteq> i) (timers w)\<rparr>"

text \<open>The callback given to \<open>setTimeout\<close> (lines 124 to 126).\<close>

definition timeout_callback :: "timer \<Rightarrow> world \<Rightarrow> world" where
  "timeout_callback tm w =
     (if length (trim (timer_text tm)) > 0
      then translateText_dispatch (timer_text tm) (timer_lang tm) w
      else w)"

text \<open>
  One run of the effect: the cleanup of the previous run (\<open>clearTimeout(id)\<close>), then
  \<open>setTimeout(..., 1000)\<close>.
\<close>

definition debounce_effect :: "world \<Rightarrow> world" where
  "debounce_effect w =
     (let w1 = (case effect_timer w of None \<Rightarrow> w | Some i \<Rightarrow> clearTimeout i w)
      in w1\<lparr>timers := timers w1 @
              [\<lparr>timer_id = next_timer w1, deadline = clock w1 + 1000,
                timer_text = original w1, timer_lang = outputLang w1\<rparr>],
            effect_timer := Some (next_timer w1),
            next_timer := Suc (next_timer w1)\<rparr>)"

text \<open>
  React runs the effect after a render in which \<open>original\<close> or \<open>outputLang\<close> differs
  from the previous render (the dependency array of line 129).
\<close>

definition commit :: "world \<Rightarrow> world \<Rightarrow> world" where
  "commit prev w =
     (if original w = original prev \<and> outputLang w = outputLang prev then w
      else debounce_effect w)"

text \<open>
  The event loop: time passes to \<open>t\<close>, and the timers due by then are taken off the
  table and their callbacks run, in the order they were set.
\<close>

fun run_callbacks :: "timer list \<Rightarrow> world \<Rightarrow> world" where
  "run_callbacks [] w = w"
| "run_callbacks (tm # tms) w = run_callbacks tms (timeout_callback tm w)"

definition advance :: "nat \<Rightarrow> world \<Rightarrow> world" where
  "advance t w =
     (let now = max t (clock w);
          due = filter (\<lambda>tm. deadline tm \<le> now) (timers w)
      in run_callbacks due
           (w\<lparr>clock := now, timers := filter (\<lambda>tm. \<not> deadline tm \<le> now) (timers w)\<rparr>))"

text \<open>
  At time \<open>t\<close> the transcript and the output language become \<open>p\<close> (by \<open>setOriginal\<close>
  or \<open>setOutputLang\<close>) and the component renders again.
\<close>

definition change :: "nat \<times> jsstring \<times> jsstring \<Rightarrow> world \<Rightarrow> world" where
  "change e w =
     (let w1 = advance (fst e) w
      in commit w1 (w1\<lparr>original := fst (snd e), outputLang := snd (snd e)\<rparr>))"

fun changes :: "(nat \<times> jsstring \<times> jsstring) list \<Rightarrow> world \<Rightarrow> world" where
  "changes [] w = w"
| "changes (e # es) w = changes es (change e w)"

text \<open>The text and output language of each request sent so far.\<close>

definition dispatched :: "world \<Rightarrow> (jsstring \<times> jsstring) list" where
  "dispatched w = map (\<lambda>rq. (body_text rq, body_outputLang rq)) (fetches w)"

subsection \<open>The first render\<close>

text \<open>
  The recognition effect (lines 103 to 109) and the debounce effect, run after the first
  render of a component in its initial state.
\<close>

definition recognition_effect :: "world \<Rightarrow> world" where
  "recognition_effect w =
     (if \<not> has_api w then w\<lparr>status := NoSpeechApi\<rparr>
      else (let (a, w1) = createRecognition (inputLang w) w in w1\<lparr>recognitionRef := a\<rparr>))"

definition mount :: "bool \<Rightarrow> synth option \<Rightarrow> jsstring option \<Rightarrow> world" where
  "mount api sy burl =
     debounce_effect (recognition_effect
       (state.extend initial_state
          \<lparr>has_api = api, recs = [], synth = sy, backend_url = burl, clock = 0,
           timers = [], effect_timer = None, next_timer = 0, fetches = []\<rparr>))"

subsection \<open>\<open>toggleListening\<close> (lines 157 to 211)\<close>

text \<open>\<open>r.start()\<close>, \<open>r.stop()\<close> and \<open>r.abort()\<close> through a reference; null throws.\<close>

definition call_rec ::
  "(recognizer \<Rightarrow> js_error + recognizer) \<Rightarrow> nat option \<Rightarrow> world \<Rightarrow> js_error + world" where
  "call_rec m ref w =
     (case ref of
        None \<Rightarrow> Inl TypeError
      | Some i \<Rightarrow>
          (case rec_at w i of
             None \<Rightarrow> Inl TypeError
           | Some r \<Rightarrow>
               (case m r of
                  Inl e \<Rightarrow> Inl e
                | Inr r' \<Rightarrow> Inr (w\<lparr>recs := (recs w)[i := r']\<rparr>))))"

text \<open>\<open>try { r.abort(); } catch (e) {}\<close> through a reference.\<close>

definition abort_quietly :: "nat option \<Rightarrow> world \<Rightarrow> world" where
  "abort_quietly ref w = (case call_rec rec_abort ref w of Inl _ \<Rightarrow> w | Inr w' \<Rightarrow> w')"

text \<open>The branch \<open>if (!listening)\<close> (lines 170 to 194), \<open>r\<close> being \<open>recognitionRef.current\<close>.\<close>

definition start_listening :: "world \<Rightarrow> js_error + world" where
  "start_listening w =
     (case call_rec rec_start (recognitionRef w) w of
        Inr w' \<Rightarrow> Inr w'
      | Inl err \<Rightarrow>
          if err = InvalidStateError then
            (let w1 = abort_quietly (recognitionRef w) w;
                 (a, w2) = createRecognition (inputLang w1) w1;
                 w3 = w2\<lparr>recognitionRef := a\<rparr>
             in case call_rec rec_start (recognitionRef w3) w3 of
                  Inl e2 \<Rightarrow> Inr (w3\<lparr>status := Error\<rparr>)
                | Inr w4 \<Rightarrow> Inr w4)
          else Inr (w\<lparr>status := Error\<rparr>))"

text \<open>
  The branch that stops (lines 196 to 210). A platform recognizer has a \<open>stop\<close> method, so
  \<open>typeof r.stop === "function"\<close> holds whenever \<open>r\<close> is an object.
\<close>

definition stop_listening :: "world \<Rightarrow> js_error + world" where
  "stop_listening w =
     (case call_rec rec_stop (recognitionRef w) w of
        Inr w' \<Rightarrow> Inr w'
      | Inl e \<Rightarrow> Inr (abort_quietly (recognitionRef w) w))"

definition toggleListening :: "world \<Rightarrow> js_error + world" where
  "toggleListening w =
     (if recognitionRef w = None \<and> \<not> has_api w then Inr (w\<lparr>status := NoSpeechApi\<rparr>)
      else
        (let w1 = (if recognitionRef w = None
                   then (let (a, w') = createRecognition (inputLang w) w
                         in w'\<lparr>recognitionRef := a\<rparr>)
                   else w)
         in if \<not> listening w1 then start_listening w1 else stop_listening w1))"

text \<open>The recognizers whose session is active.\<close>

definition active_sessions :: "world \<Rightarrow> nat list" where
  "active_sessions w = filter (\<lambda>i. capturing (recs w ! i)) [0..<length (recs w)]"

subsection \<open>\<open>speak\<close> (lines 213 to 224)\<close>

definition speak :: "world \<Rightarrow> js_error + world" where
  "speak w =
     (if \<not> truthy (translated w) then Inr w
      else
        (case synth w of
           None \<Rightarrow> Inl TypeError
         | Some sy \<Rightarrow>
             (let sy1 = (if speaking sy
                         then sy\<lparr>speaking := False, synth_calls := synth_calls sy @ [CallCancel]\<rparr>
                         else sy);
                  match = find (\<lambda>v. voice_lang v \<noteq> [] \<and> startsWith (voice_lang v) (outputLang w))
                            (voices sy1);
                  utter = \<lparr>utter_text = translated w, utter_voice = match,
                           utter_lang = outputLang w\<rparr>
              in Inr (w\<lparr>synth := Some (sy1\<lparr>speaking := True,
                                           synth_calls := synth_calls sy1 @ [CallSpeak utter]\<rparr>)\<rparr>))))"

section \<open>The server: \<open>POST /api/translate\<close>\<close>

text \<open>
  The handler of the Express server (the listing in README.md, lines 77 to 115), up to
  its call of the upstream API: it either sends a response or calls upstream with the
  prompt. The request body has the fields of the documented interface,
  \<open>{ text: string, outputLang: string }\<close>, each possibly missing.
\<close>

record translate_request =
  req_text :: "jsstring option"
  req_outputLang :: "jsstring option"

record http_response =
  http_status :: nat
  http_body :: jsval

record chat_request =
  bearer :: jsstring
  model :: jsstring
  messages :: "(jsstring \<times> jsstring) list"
  max_tokens :: nat
  temperature :: rat

datatype handler_step = Responds http_response | CallsUpstream chat_request

definition key_notice :: jsstring where
  "key_notice = lit ''(OPENAI_API_KEY not set on server) ''"

definition keyless_response :: "jsstring \<Rightarrow> http_response" where
  "keyless_response text =
     \<lparr>http_status = 200,
      http_body = JObj [(lit ''translated'', JStr (key_notice @ text))]\<rparr>"

definition text_required :: http_response where
  "text_required =
     \<lparr>http_status = 400, http_body = JObj [(lit ''error'', JStr (lit ''text required''))]\<rparr>"

text \<open>\<open>key\<close> is \<open>process.env.OPENAI_API_KEY\<close>, \<open>None\<close> when the variable is not set.\<close>

definition api_translate :: "jsstring option \<Rightarrow> translate_request \<Rightarrow> handler_step" where
  "api_translate key req =
     (case req_text req of
        None \<Rightarrow> Responds text_required
      | Some text \<Rightarrow>
          if text = [] then Responds text_required
          else
            (let prompt =
                   [(lit ''system'',
                     lit ''You are a medical-aware translation assistant. Correct transcription errors, normalize medical terminology, preserve meaning, and translate to the requested language. Keep translation concise and suitable for spoken playback.''),
                    (lit ''user'',
                     lit ''Translate the following text into ''
                       @ (case req_outputLang req of None \<Rightarrow> lit ''undefined'' | Some l \<Rightarrow> l)
                       @ lit ''. If possible, correct medical/clinical term misspellings and deliver a short, clear translation suitable for a healthcare conversation. Respond only with the translated text.''),
                    (lit ''user'', text)]
             in case key of
                  None \<Rightarrow> Responds (keyless_response text)
                | Some k \<Rightarrow>
                    if k = [] then Responds (keyless_response text)
                    else CallsUpstream
                           \<lparr>bearer = k, model = lit ''gpt-4o-mini'', messages = prompt,
                            max_tokens = 500, temperature = 2 / 10\<rparr>))"

section \<open>Requests and responses in flight\<close>

text \<open>
  \<open>Dispatch text lang\<close>: the debounce timer of a render with that transcript and
  output language fires and calls \<open>translateText\<close>. \<open>Arrives n\<close>: the response to the
  \<open>n\<close>-th request sent arrives and the rest of that call of \<open>translateText\<close> runs. The
  endpoint is a function from the request to what the client receives.
\<close>

datatype net_event = Dispatch jsstring jsstring | Arrives nat

fun net_step :: "(fetch_request \<Rightarrow> fetch_result) \<Rightarrow> net_event \<Rightarrow> world \<Rightarrow> world" where
  "net_step endpoint (Dispatch text lang) w = timeout_callback
     \<lparr>timer_id = 0, deadline = clock w, timer_text = text, timer_lang = lang\<rparr> w"
| "net_step endpoint (Arrives n) w =
     (if n < length (fetches w)
      then (case translateText_response (endpoint (fetches w ! n)) w of
              Inl _ \<Rightarrow> w
            | Inr w' \<Rightarrow> w')
      else w)"

fun net_run :: "(fetch_request \<Rightarrow> fetch_result) \<Rightarrow> net_event list \<Rightarrow> world \<Rightarrow> world" where
  "net_run endpoint [] w = w"
| "net_run endpoint (e # es) w = net_run endpoint es (net_step endpoint e w)"

text \<open>The server of this repository, run without a key, as the endpoint.\<close>

definition keyless_endpoint :: "fetch_request \<Rightarrow> fetch_result" where
  "keyless_endpoint rq =
     (case api_translate None
             \<lparr>req_text = Some (body_text rq), req_outputLang = Some (body_outputLang rq)\<rparr> of
        Responds resp \<Rightarrow> Body (http_body resp)
      | CallsUpstream _ \<Rightarrow> FetchRejected)"

section \<open>Notions used to state the properties\<close>

text \<open>The own property \<open>k\<close> of a parsed body, if the body is an object that has it.\<close>

definition own_field :: "jsval \<Rightarrow> jsstring \<Rightarrow> jsval option" where
  "own_field v k = (case v of JObj kvs \<Rightarrow> map_of kvs k | _ \<Rightarrow> None)"

text \<open>
  What \<open>translateText\<close> writes to \<open>translated\<close> and \<open>status\<close> on a response, read off a
  run in the initial state.
\<close>

definition published :: "fetch_result \<Rightarrow> jsval \<times> status" where
  "published r =
     (case translateText_response r initial_state of
        Inl _ \<Rightarrow> (translated initial_state, status initial_state)
      | Inr s \<Rightarrow> (translated s, status s))"

text \<open>Every pending timer is the one the cleanup of the debounce effect holds.\<close>

definition pending_own :: "world \<Rightarrow> bool" where
  "pending_own w = (\<forall>tm \<in> set (timers w). effect_timer w = Some (timer_id tm))"

text \<open>
  A burst after a change at time \<open>t0\<close> to the pair \<open>p0\<close>: every further change comes
  less than 1000 ms after the one before it, and is a change.
\<close>

fun in_window ::
  "nat \<Rightarrow> jsstring \<times> jsstring \<Rightarrow> (nat \<times> jsstring \<times> jsstring) list \<Rightarrow> bool" where
  "in_window t0 p0 [] = True"
| "in_window t0 p0 (e # es) =
     (t0 \<le> fst e \<and> fst e < t0 + 1000 \<and> snd e \<noteq> p0 \<and> in_window (fst e) (snd e) es)"

text \<open>The state right after the effect ran at time \<open>t\<close> for the pair \<open>p\<close>.\<close>

definition armed :: "world \<Rightarrow> nat \<Rightarrow> jsstring \<times> jsstring \<Rightarrow> bool" where
  "armed w t p =
     (clock w = t \<and> original w = fst p \<and> outputLang w = snd p \<and> pending_own w
      \<and> map (\<lambda>tm. (deadline tm, timer_text tm, timer_lang tm)) (timers w)
          = [(t + 1000, fst p, snd p)])"

text \<open>
  A browser with speech recognition and an idle synthesis engine, after the first render;
  and the same after \<open>start()\<close> was called on its recognizer, before the \<open>start\<close>
  event is delivered.
\<close>

definition demo_synth :: synth where
  "demo_synth = \<lparr>speaking = False, voices = [], synth_calls = []\<rparr>"

definition demo_world :: world where
  "demo_world = mount True (Some demo_synth) None"

definition starting_world :: world where
  "starting_world =
     demo_world\<lparr>recs :=
       [\<lparr>rec_lang = lit ''en-US'', closure_original = [], started = True, capturing = True,
         rec_calls = [CallStart]\<rparr>]\<rparr>"

section \<open>Properties\<close>

subsection \<open>Auxiliary facts\<close>

lemma demo_world_eq:
  "demo_world =
     \<lparr>listening = False, original = [], translated = JStr [], inputLang = lit ''en-US'',
      outputLang = lit ''bn'', status = Idle, recognitionRef = Some 0, lastResultRef = [],
      has_api = True,
      recs = [\<lparr>rec_lang = lit ''en-US'', closure_original = [], started = False,
               capturing = False, rec_calls = []\<rparr>],
      synth = Some demo_synth, backend_url = None, clock = 0,
      timers = [\<lparr>timer_id = 0, deadline = 1000, timer_text = [], timer_lang = lit ''bn''\<rparr>],
      effect_timer = Some 0, next_timer = 1, fetches = []\<rparr>"
  by (simp add: demo_world_def mount_def debounce_effect_def recognition_effect_def
      createRecognition_def initial_state_def state.defs)

lemma lit_eq_iff: "lit a = lit b \<longleftrightarrow> a = b"
  by (simp add: lit_def inj_map_eq_map inj_of_char)

lemma lit_Nil_iff: "lit a = [] \<longleftrightarrow> a = []" "[] = lit a \<longleftrightarrow> a = []"
  by (auto simp: lit_def)

lemmas lit_simps = lit_eq_iff lit_Nil_iff

lemma trim_samples:
  "trim (lit ''chest'') = lit ''chest''" "trim (lit ''chest pain'') = lit ''chest pain''"
  by (simp_all add: trim_def js_whitespace_def lit_def)

lemma timeout_callback_text:
  "trim (timer_text tm) \<noteq> [] \<Longrightarrow>
     timeout_callback tm w = translateText_dispatch (timer_text tm) (timer_lang tm) w"
  by (simp add: timeout_callback_def)

lemma translateText_response_published:
  "translateText_response r s
     = Inr (s\<lparr>translated := fst (published r), status := snd (published r)\<rparr>)"
proof (cases r)
  case (Body data)
  then show ?thesis
    by (cases "get_prop data (lit ''translated'')")
       (simp_all add: published_def translateText_response_def translateText_try_def)
qed (simp_all add: published_def translateText_response_def translateText_try_def)

lemma response_translated_field:
  "truthy v \<Longrightarrow>
     translateText_response (Body (JObj [(lit ''translated'', v)])) s
       = Inr (s\<lparr>translated := v, status := Translated\<rparr>)"
  by (simp add: translateText_response_def translateText_try_def)

lemma api_translate_keyless:
  "text \<noteq> [] \<Longrightarrow>
     api_translate None \<lparr>req_text = Some text, req_outputLang = l\<rparr>
       = Responds (keyless_response text)"
  by (simp add: api_translate_def)

lemma keyless_endpoint_body:
  "body_text rq \<noteq> [] \<Longrightarrow>
     keyless_endpoint rq = Body (JObj [(lit ''translated'', JStr (key_notice @ body_text rq))])"
  by (simp add: keyless_endpoint_def api_translate_keyless keyless_response_def)

subsection \<open>Translation responses\<close>

text \<open>
  C1, as amended. Two requests are sent, the second for the more recent transcript and
  output language, and both responses are processed. Responses are applied in the order
  they arrive, with no check of the request they answer: the published translation is
  that of the response that arrived last. When the responses arrive in the order of the
  requests (the first before or after the second request is sent) it is the translation
  for the more recent pair, that is, what a run with that request alone publishes; when
  they arrive in the opposite order it is the one for the stale pair.
\<close>

theorem last_arrival_wins:
  assumes "trim t1 \<noteq> []" and "trim t2 \<noteq> []"
  shows "translated (net_run ep [Dispatch t1 l1, Dispatch t2 l2,
                                 Arrives (length (fetches w)),
                                 Arrives (Suc (length (fetches w)))] w)
           = translated (net_run ep [Dispatch t2 l2, Arrives (length (fetches w))] w)
       \<and> translated (net_run ep [Dispatch t1 l1, Dispatch t2 l2,
                                 Arrives (Suc (length (fetches w))),
                                 Arrives (length (fetches w))] w)
           = translated (net_run ep [Dispatch t1 l1, Arrives (length (fetches w))] w)
       \<and> translated (net_run ep [Dispatch t1 l1, Arrives (length (fetches w)),
                                 Dispatch t2 l2, Arrives (Suc (length (fetches w)))] w)
           = translated (net_run ep [Dispatch t2 l2, Arrives (length (fetches w))] w)"
  using assms
  by (simp add: timeout_callback_text translateText_dispatch_def Let_def nth_append
        translateText_response_published)

text \<open>
  The amended C1 at the server without a key: ``chest'' is sent, then ``chest pain''; in
  the order of the requests the translation of ``chest pain'' stays.
\<close>

theorem last_arrival_wins_witness:
  "trim (lit ''chest'') \<noteq> [] \<and> trim (lit ''chest pain'') \<noteq> []
   \<and> translated (net_run keyless_endpoint
        [Dispatch (lit ''chest'') (lit ''es''), Dispatch (lit ''chest pain'') (lit ''es''),
         Arrives 0, Arrives 1] demo_world)
       = JStr (key_notice @ lit ''chest pain'')"
proof -
  have h1: "trim (lit ''chest'') \<noteq> []" and h2: "trim (lit ''chest pain'') \<noteq> []"
    by (simp_all add: trim_samples lit_simps)
  have alone: "translated (net_run keyless_endpoint
                 [Dispatch (lit ''chest pain'') (lit ''es''), Arrives 0] demo_world)
               = JStr (key_notice @ lit ''chest pain'')"
    by (simp add: timeout_callback_text trim_samples lit_simps translateText_dispatch_def
        Let_def demo_world_eq keyless_endpoint_body response_translated_field)
  have f: "length (fetches demo_world) = 0" by (simp add: demo_world_eq)
  from last_arrival_wins [OF h1 h2, of keyless_endpoint "lit ''es''" "lit ''es''" demo_world]
  show ?thesis unfolding f using h1 h2 alone by simp
qed

text \<open>
  C1 as stated fails: with the responses in the opposite order, the response for the
  stale ``chest'' overwrites the translation of ``chest pain''.
\<close>

theorem stale_response_counterexample:
  "translated (net_run keyless_endpoint
      [Dispatch (lit ''chest'') (lit ''es''), Dispatch (lit ''chest pain'') (lit ''es''),
       Arrives 1, Arrives 0] demo_world) = JStr (key_notice @ lit ''chest'')
   \<and> translated (net_run keyless_endpoint
      [Dispatch (lit ''chest pain'') (lit ''es''), Arrives 0] demo_world)
       = JStr (key_notice @ lit ''chest pain'')
   \<and> key_notice @ lit ''chest'' \<noteq> key_notice @ lit ''chest pain''"
  by (simp add: timeout_callback_text trim_samples lit_simps translateText_dispatch_def
        Let_def demo_world_eq keyless_endpoint_body response_translated_field)

subsection \<open>Recognition events\<close>

text \<open>
  What \<open>rec.onresult\<close> writes: the text of the results from \<open>resultIndex\<close> on, after
  the transcript the handler closed over. The transcript of the current state does not
  enter, and the closure is not renewed by the event.
\<close>

lemma onresult_original:
  assumes "rec_at w rid = Some r"
  shows "original (onresult rid ev w)
           = trim (closure_original r @ lit '' ''
                   @ snd (onresult_loop (resultIndex ev) (results ev) [] []) @ lit '' ''
                   @ fst (onresult_loop (resultIndex ev) (results ev) [] []))
         \<and> recs (onresult rid ev w) = recs w"
  using assms by (simp add: onresult_def Let_def split_beta)

text \<open>
  C2 fails on the code. A session delivers the final result ``hello'', then a second
  final result ``world'' (\<open>resultIndex = 1\<close>, the list holding both): the transcript
  is then ``world'', and the finalized ``hello'' is lost.
\<close>

theorem onresult_loses_finalized_text:
  "original
     (onresult 0
        \<lparr>resultIndex = 1,
         results = [\<lparr>isFinal = True, transcript = lit ''hello''\<rparr>,
                    \<lparr>isFinal = True, transcript = lit ''world''\<rparr>]\<rparr>
        (onresult 0
           \<lparr>resultIndex = 0, results = [\<lparr>isFinal = True, transcript = lit ''hello''\<rparr>]\<rparr>
           demo_world))
   = lit ''world''"
  by (simp add: onresult_def rec_at_def demo_world_eq trim_def js_whitespace_def lit_def
      Let_def)

text \<open>
  C3. \<open>rec.onerror\<close> of an existing recognizer: the kind \<open>network\<close> sets the status
  to network-error and calls \<open>abort\<close> on the recognizer (its capture ends, and the call
  recorded is abort, not stop); the kind \<open>not-allowed\<close> sets the status to
  permission-denied and aborts likewise; every other kind sets the status to error and
  does nothing else.
\<close>

theorem onerror_taxonomy:
  "rec_at w rid = Some r \<Longrightarrow>
     (let aborted =
            (recs w)[rid := r\<lparr>capturing := False, rec_calls := rec_calls r @ [CallAbort]\<rparr>]
      in onerror rid (Some (lit ''network'')) w = w\<lparr>status := NetworkError, recs := aborted\<rparr>
       \<and> onerror rid (Some (lit ''not-allowed'')) w
           = w\<lparr>status := PermissionDenied, recs := aborted\<rparr>
       \<and> (e \<noteq> Some (lit ''network'') \<and> e \<noteq> Some (lit ''not-allowed'')
            \<longrightarrow> onerror rid e w = w\<lparr>status := Error\<rparr>))"
  by (auto simp: onerror_def try_abort_def rec_abort_def rec_at_def Let_def lit_simps
      split: if_splits)

theorem onerror_taxonomy_witness:
  "rec_at starting_world 0
     = Some \<lparr>rec_lang = lit ''en-US'', closure_original = [], started = True,
             capturing = True, rec_calls = [CallStart]\<rparr>
   \<and> status (onerror 0 (Some (lit ''network'')) starting_world) = NetworkError
   \<and> map rec_calls (recs (onerror 0 (Some (lit ''network'')) starting_world))
       = [[CallStart, CallAbort]]
   \<and> status (onerror 0 (Some (lit ''not-allowed'')) starting_world) = PermissionDenied
   \<and> map capturing (recs (onerror 0 (Some (lit ''not-allowed'')) starting_world)) = [False]
   \<and> status (onerror 0 (Some (lit ''no-speech'')) starting_world) = Error
   \<and> recs (onerror 0 (Some (lit ''no-speech'')) starting_world) = recs starting_world"
proof -
  have h: "rec_at starting_world 0
             = Some \<lparr>rec_lang = lit ''en-US'', closure_original = [], started = True,
                     capturing = True, rec_calls = [CallStart]\<rparr>"
    by (simp add: rec_at_def starting_world_def)
  from onerror_taxonomy [OF h, of "Some (lit ''no-speech'')"] h show ?thesis
    by (simp add: Let_def lit_simps starting_world_def)
qed

text \<open>
  C4, as amended. When a session ends the listening flag is cleared; the status
  network-error is kept; the statuses idle, listening, translating, translated,
  no-speech-api and the generic error become idle. Nothing else changes. (The status
  permission-denied is left out of the statement.)
\<close>

theorem onend_status:
  "status s \<noteq> PermissionDenied \<Longrightarrow>
     onend s = s\<lparr>listening := False,
                 status := (if status s = NetworkError then NetworkError else Idle)\<rparr>"
  by (simp add: onend_def)

theorem onend_status_witness:
  "status (initial_state\<lparr>listening := True, status := NetworkError\<rparr>) \<noteq> PermissionDenied
   \<and> onend (initial_state\<lparr>listening := True, status := NetworkError\<rparr>)
       = initial_state\<lparr>listening := False, status := NetworkError\<rparr>"
proof -
  have h: "status (initial_state\<lparr>listening := True, status := NetworkError\<rparr>) \<noteq> PermissionDenied"
    by simp
  from onend_status [OF h] h show ?thesis by simp
qed

text \<open>
  C4 as stated fails: a session in the generic error status that ends is set to idle.
\<close>

theorem onend_overwrites_error_counterexample:
  "status (initial_state\<lparr>listening := True, status := Error\<rparr>) = Error
   \<and> status (onend (initial_state\<lparr>listening := True, status := Error\<rparr>)) = Idle"
  by (simp add: onend_def)

subsection \<open>The debounce timer\<close>

lemma dispatched_translateText_dispatch:
  "dispatched (translateText_dispatch text lang w) = dispatched w @ [(text, lang)]"
  by (simp add: dispatched_def translateText_dispatch_def Let_def)

lemma dispatched_timeout_callback:
  "dispatched (timeout_callback tm w)
     = dispatched w @ (if trim (timer_text tm) = [] then [] else [(timer_text tm, timer_lang tm)])"
  by (simp add: timeout_callback_def dispatched_translateText_dispatch)

lemma timers_timeout_callback: "timers (timeout_callback tm w) = timers w"
  by (simp add: timeout_callback_def translateText_dispatch_def Let_def)

lemma pending_own_cleared:
  assumes "pending_own w"
  shows "timers (case effect_timer w of None \<Rightarrow> w | Some i \<Rightarrow> clearTimeout i w) = []"
proof (cases "effect_timer w")
  case None
  with assms have "set (timers w) = {}" by (auto simp: pending_own_def)
  with None show ?thesis by simp
next
  case (Some i)
  with assms have "\<forall>tm \<in> set (timers w). timer_id tm = i" by (auto simp: pending_own_def)
  then have "filter (\<lambda>tm. timer_id tm \<noteq> i) (timers w) = []" by (simp add: filter_empty_conv)
  with Some show ?thesis by (simp add: clearTimeout_def)
qed

lemma debounce_effect_armed:
  assumes "pending_own w"
  shows "armed (debounce_effect w) (clock w) (original w, outputLang w)"
    and "dispatched (debounce_effect w) = dispatched w"
proof -
  let ?w1 = "case effect_timer w of None \<Rightarrow> w | Some i \<Rightarrow> clearTimeout i w"
  have t: "timers ?w1 = []" using assms by (rule pending_own_cleared)
  have same: "clock ?w1 = clock w" "original ?w1 = original w" "outputLang ?w1 = outputLang w"
    "fetches ?w1 = fetches w"
    by (simp_all add: clearTimeout_def split: option.splits)
  show "armed (debounce_effect w) (clock w) (original w, outputLang w)"
    using t same by (simp add: armed_def debounce_effect_def Let_def pending_own_def)
  show "dispatched (debounce_effect w) = dispatched w"
    using same by (simp add: dispatched_def debounce_effect_def Let_def)
qed

lemma advance_nothing_due:
  assumes "clock w \<le> t" and "\<forall>tm \<in> set (timers w). t < deadline tm"
  shows "advance t w = w\<lparr>clock := t\<rparr>"
proof -
  have m: "max t (clock w) = t" using assms(1) by simp
  have "filter (\<lambda>tm. deadline tm \<le> t) (timers w) = []"
    using assms(2) by (auto simp: filter_empty_conv)
  moreover have "filter (\<lambda>tm. \<not> deadline tm \<le> t) (timers w) = timers w"
    using assms(2) by (auto simp: filter_id_conv)
  ultimately show ?thesis by (simp add: advance_def Let_def m)
qed

lemma change_arms:
  assumes "pending_own w" and "clock w \<le> fst e"
    and "\<forall>tm \<in> set (timers w). fst e < deadline tm"
    and "snd e \<noteq> (original w, outputLang w)"
  shows "armed (change e w) (fst e) (snd e) \<and> dispatched (change e w) = dispatched w"
proof -
  let ?w2 = "w\<lparr>clock := fst e, original := fst (snd e), outputLang := snd (snd e)\<rparr>"
  have adv: "advance (fst e) w = w\<lparr>clock := fst e\<rparr>"
    using assms(2,3) by (rule advance_nothing_due)
  have differs: "\<not> (fst (snd e) = original w \<and> snd (snd e) = outputLang w)"
    using assms(4) by (cases e) auto
  have ch: "change e w = debounce_effect ?w2"
    using differs by (auto simp add: change_def adv commit_def Let_def)
  have own: "pending_own ?w2" using assms(1) by (simp add: pending_own_def)
  from debounce_effect_armed [OF own] show ?thesis
    by (simp add: ch dispatched_def)
qed

lemma armed_next:
  assumes "armed w t0 p0" and "t0 \<le> fst e" and "fst e < t0 + 1000" and "snd e \<noteq> p0"
  shows "armed (change e w) (fst e) (snd e) \<and> dispatched (change e w) = dispatched w"
proof (rule change_arms)
  show "pending_own w" using assms(1) by (simp add: armed_def)
  show "clock w \<le> fst e" using assms(1,2) by (simp add: armed_def)
  have "map (\<lambda>tm. (deadline tm, timer_text tm, timer_lang tm)) (timers w)
          = [(t0 + 1000, fst p0, snd p0)]"
    using assms(1) by (simp add: armed_def)
  then have "\<forall>tm \<in> set (timers w). deadline tm = t0 + 1000" by (auto simp: map_eq_Cons_conv)
  then show "\<forall>tm \<in> set (timers w). fst e < deadline tm" using assms(3) by simp
  show "snd e \<noteq> (original w, outputLang w)" using assms(1,4) by (simp add: armed_def)
qed

lemma changes_armed:
  "armed w t p \<Longrightarrow> in_window t p es \<Longrightarrow>
     armed (changes es w) (fst (last ((t, p) # es))) (snd (last ((t, p) # es)))
     \<and> dispatched (changes es w) = dispatched w"
proof (induction es arbitrary: w t p)
  case Nil
  then show ?case by simp
next
  case (Cons e es)
  from Cons.prems have step: "armed (change e w) (fst e) (snd e)"
    and same: "dispatched (change e w) = dispatched w"
    using armed_next [of w t p e] by simp_all
  from Cons.prems have "in_window (fst e) (snd e) es" by simp
  from Cons.IH [OF step this] same show ?case by simp
qed

lemma advance_armed_early:
  assumes "armed w t p" and "T < t + 1000"
  shows "dispatched (advance T w) = dispatched w"
proof -
  obtain tm where tm: "timers w = [tm]" "deadline tm = t + 1000"
    using assms(1) by (auto simp: armed_def map_eq_Cons_conv)
  have "clock w = t" using assms(1) by (simp add: armed_def)
  then have "\<not> deadline tm \<le> max T (clock w)" using tm assms(2) by simp
  then show ?thesis using tm by (simp add: advance_def Let_def dispatched_def)
qed

lemma advance_armed_due:
  assumes "armed w t p" and "t + 1000 \<le> T"
  shows "dispatched (advance T w) = dispatched w @ (if trim (fst p) = [] then [] else [p])
         \<and> timers (advance T w) = []"
proof -
  have "map (\<lambda>tm. (deadline tm, timer_text tm, timer_lang tm)) (timers w)
          = [(t + 1000, fst p, snd p)]"
    using assms(1) by (simp add: armed_def)
  then obtain tm tms where "timers w = tm # tms" and "map (\<lambda>tm. (deadline tm, timer_text tm, timer_lang tm)) tms = []"
    and f: "(deadline tm, timer_text tm, timer_lang tm) = (t + 1000, fst p, snd p)"
    unfolding map_eq_Cons_conv by blast
  then have tm: "timers w = [tm]" by simp
  have dl: "deadline tm = t + 1000" and tx: "timer_text tm = fst p"
    and tl: "timer_lang tm = snd p"
    using f by auto
  have due: "deadline tm \<le> max T (clock w)" using dl assms(2) by simp
  have adv: "advance T w = timeout_callback tm (w\<lparr>clock := max T (clock w), timers := []\<rparr>)"
    using due by (simp add: advance_def Let_def tm)
  have "dispatched (advance T w)
          = dispatched w @ (if trim (timer_text tm) = [] then [] else [(timer_text tm, timer_lang tm)])"
    unfolding adv dispatched_timeout_callback by (simp add: dispatched_def)
  moreover have "timers (advance T w) = []"
    unfolding adv timers_timeout_callback by simp
  ultimately show ?thesis by (simp add: tx tl)
qed

text \<open>
  The hypothesis on pending timers holds after the first render and is kept by every
  change and by the passing of time.
\<close>

lemma run_callbacks_timers:
  "timers (run_callbacks tms w) = timers w
   \<and> effect_timer (run_callbacks tms w) = effect_timer w"
  by (induction tms arbitrary: w)
     (simp_all add: timeout_callback_def translateText_dispatch_def Let_def)

lemma pending_own_mount: "pending_own (mount api sy burl)"
  by (simp add: pending_own_def mount_def debounce_effect_def recognition_effect_def
      createRecognition_def state.defs clearTimeout_def split: option.splits)

lemma pending_own_advance: "pending_own w \<Longrightarrow> pending_own (advance t w)"
  by (simp add: pending_own_def advance_def Let_def run_callbacks_timers)

lemma pending_own_change: "pending_own w \<Longrightarrow> pending_own (change e w)"
proof -
  assume "pending_own w"
  then have a: "pending_own (advance (fst e) w)" by (rule pending_own_advance)
  let ?w2 = "(advance (fst e) w)\<lparr>original := fst (snd e), outputLang := snd (snd e)\<rparr>"
  have b: "pending_own ?w2" using a by (simp add: pending_own_def)
  from debounce_effect_armed(1) [OF b] have "pending_own (debounce_effect ?w2)"
    by (simp add: armed_def)
  with a b show ?thesis by (simp add: change_def commit_def Let_def)
qed

text \<open>
  C5. A burst of changes of the transcript or the output language starts in a state whose
  only pending timer, if any, is the effect's own and is not yet due; every further change
  comes less than one second after the one before it. Then nothing is dispatched during
  the burst, nor before one second has passed since its last change; once that second has
  passed, exactly one request has been dispatched, for the last pair of the burst, and no
  timer is left pending; and if the transcript of that pair is empty or whitespace-only,
  nothing is dispatched at all.
\<close>

theorem debounce_burst:
  assumes "pending_own w" and "clock w \<le> fst e"
    and "\<forall>tm \<in> set (timers w). fst e < deadline tm"
    and "snd e \<noteq> (original w, outputLang w)"
    and "in_window (fst e) (snd e) es"
  shows "dispatched (changes (e # es) w) = dispatched w
     \<and> (\<forall>T. T < fst (last (e # es)) + 1000 \<longrightarrow>
            dispatched (advance T (changes (e # es) w)) = dispatched w)
     \<and> (\<forall>T. fst (last (e # es)) + 1000 \<le> T \<longrightarrow>
            dispatched (advance T (changes (e # es) w))
              = dispatched w @ (if trim (fst (snd (last (e # es)))) = [] then []
                                else [snd (last (e # es))])
            \<and> timers (advance T (changes (e # es) w)) = [])"
proof -
  from change_arms [OF assms(1-4)]
  have a: "armed (change e w) (fst e) (snd e)" and d: "dispatched (change e w) = dispatched w"
    by simp_all
  from changes_armed [OF a assms(5)]
  have a': "armed (changes (e # es) w) (fst (last (e # es))) (snd (last (e # es)))"
    and d': "dispatched (changes (e # es) w) = dispatched w"
    using d by (simp_all add: prod.collapse)
  show ?thesis
    using d' advance_armed_early [OF a'] advance_armed_due [OF a'] by simp
qed

text \<open>
  C5 after the first render: the transcript becomes ``chest'' at 200 ms and ``chest pain''
  at 700 ms, and the output language becomes \<open>es\<close> at 1500 ms. Nothing has been sent at
  2499 ms; at 2500 ms the one request, for ``chest pain'' and \<open>es\<close>, has been.
\<close>

theorem debounce_burst_witness:
  "pending_own demo_world \<and> clock demo_world \<le> 200
   \<and> map deadline (timers demo_world) = [1000]
   \<and> (lit ''chest'', lit ''bn'') \<noteq> (original demo_world, outputLang demo_world)
   \<and> in_window 200 (lit ''chest'', lit ''bn'')
        [(700, lit ''chest pain'', lit ''bn''), (1500, lit ''chest pain'', lit ''es'')]
   \<and> dispatched (advance 2499 (changes
        [(200, lit ''chest'', lit ''bn''), (700, lit ''chest pain'', lit ''bn''),
         (1500, lit ''chest pain'', lit ''es'')] demo_world)) = []
   \<and> dispatched (advance 2500 (changes
        [(200, lit ''chest'', lit ''bn''), (700, lit ''chest pain'', lit ''bn''),
         (1500, lit ''chest pain'', lit ''es'')] demo_world))
       = [(lit ''chest pain'', lit ''es'')]"
proof -
  let ?e = "(200::nat, lit ''chest'', lit ''bn'')"
  let ?es = "[(700::nat, lit ''chest pain'', lit ''bn''), (1500, lit ''chest pain'', lit ''es'')]"
  have h1: "pending_own demo_world" by (simp add: pending_own_def demo_world_eq)
  have h2: "clock demo_world \<le> fst ?e" by (simp add: demo_world_eq)
  have h3: "\<forall>tm \<in> set (timers demo_world). fst ?e < deadline tm" by (simp add: demo_world_eq)
  have h4: "snd ?e \<noteq> (original demo_world, outputLang demo_world)"
    by (simp add: demo_world_eq lit_simps)
  have h5: "in_window (fst ?e) (snd ?e) ?es" by (simp add: lit_simps)
  have d: "dispatched demo_world = []" by (simp add: dispatched_def demo_world_eq)
  from debounce_burst [OF h1 h2 h3 h4 h5]
  have early: "\<forall>T. T < 2500 \<longrightarrow> dispatched (advance T (changes (?e # ?es) demo_world)) = []"
    and late: "\<forall>T. 2500 \<le> T \<longrightarrow>
                 dispatched (advance T (changes (?e # ?es) demo_world))
                   = [(lit ''chest pain'', lit ''es'')]"
    by (simp_all add: d trim_samples lit_simps)
  from early have "dispatched (advance 2499 (changes (?e # ?es) demo_world)) = []" by simp
  moreover from late
  have "dispatched (advance 2500 (changes (?e # ?es) demo_world))
          = [(lit ''chest pain'', lit ''es'')]" by simp
  moreover have "map deadline (timers demo_world) = [1000]" by (simp add: demo_world_eq)
  ultimately show ?thesis using h1 h2 h4 h5 by simp
qed

text \<open>
  C6, as amended. The call of \<open>translateText\<close> never rejects, and ends in the status
  translated or error. If the body is an object whose \<open>translated\<close> field is there and
  truthy (a non-empty string), the translation is set to that value and the status to
  translated. If the body is another value than null, or has no such field, or the field
  is falsy (the empty string), the quota placeholder is published and the status is error.
  If \<open>fetch\<close> fails, the body is not JSON, or the body is null, the placeholder
  ``Translation error'' is published and the status is error.
\<close>

theorem translateText_response_cases:
  "(\<exists>s'. translateText_response r s = Inr s' \<and> (status s' = Translated \<or> status s' = Error))
   \<and> (r = Body data \<and> own_field data (lit ''translated'') = Some v \<and> truthy v
        \<longrightarrow> translateText_response r s = Inr (s\<lparr>translated := v, status := Translated\<rparr>))
   \<and> (r = Body data \<and> data \<noteq> JNull \<and> data \<noteq> JUndefined
        \<and> (own_field data (lit ''translated'') = None
            \<or> (\<exists>u. own_field data (lit ''translated'') = Some u \<and> \<not> truthy u))
        \<longrightarrow> translateText_response r s
              = Inr (s\<lparr>translated := JStr quota_placeholder, status := Error\<rparr>))
   \<and> (r = FetchRejected \<or> r = JsonRejected \<or> r = Body JNull
        \<longrightarrow> translateText_response r s
              = Inr (s\<lparr>translated := JStr error_placeholder, status := Error\<rparr>))"
proof (cases r)
  case (Body d)
  then show ?thesis
    by (cases d)
       (auto simp: translateText_response_def translateText_try_def own_field_def
          split: option.splits)
qed (simp_all add: translateText_response_def translateText_try_def)

text \<open>
  The amended C6 on the scenarios of the specification: the body
  \<open>{translated: "dolor en el pecho"}\<close>, the body \<open>{error: "No translation result"}\<close>
  of a 500 response, and a failed \<open>fetch\<close>.
\<close>

theorem translateText_response_cases_witness:
  "translateText_response
      (Body (JObj [(lit ''translated'', JStr (lit ''dolor en el pecho''))])) initial_state
     = Inr (initial_state\<lparr>translated := JStr (lit ''dolor en el pecho''), status := Translated\<rparr>)
   \<and> translateText_response
        (Body (JObj [(lit ''error'', JStr (lit ''No translation result''))])) initial_state
       = Inr (initial_state\<lparr>translated := JStr quota_placeholder, status := Error\<rparr>)
   \<and> translateText_response FetchRejected initial_state
       = Inr (initial_state\<lparr>translated := JStr error_placeholder, status := Error\<rparr>)"
proof -
  let ?ok = "JObj [(lit ''translated'', JStr (lit ''dolor en el pecho''))]"
  let ?ko = "JObj [(lit ''error'', JStr (lit ''No translation result''))]"
  have a: "own_field ?ok (lit ''translated'') = Some (JStr (lit ''dolor en el pecho''))"
    and b: "truthy (JStr (lit ''dolor en el pecho''))"
    and c: "own_field ?ko (lit ''translated'') = None"
    by (simp_all add: own_field_def lit_simps)
  from translateText_response_cases
         [of "Body ?ok" initial_state ?ok "JStr (lit ''dolor en el pecho'')"]
       translateText_response_cases [of "Body ?ko" initial_state ?ko]
       translateText_response_cases [of FetchRejected initial_state]
  show ?thesis using a b c by simp
qed

text \<open>
  C6 as stated fails: the body \<open>{translated: ""}\<close> has a \<open>translated\<close> field, and the
  quota placeholder is published with the status error.
\<close>

theorem translated_empty_counterexample:
  "own_field (JObj [(lit ''translated'', JStr [])]) (lit ''translated'') = Some (JStr [])
   \<and> translateText_response (Body (JObj [(lit ''translated'', JStr [])])) initial_state
       = Inr (initial_state\<lparr>translated := JStr quota_placeholder, status := Error\<rparr>)"
  by (simp add: translateText_response_def translateText_try_def own_field_def)

subsection \<open>Starting, speaking, the server\<close>

text \<open>\<open>toggleListening\<close> catches whatever its calls throw.\<close>

lemma toggleListening_returns: "\<exists>w'. toggleListening w = Inr w'"
  by (auto simp: toggleListening_def start_listening_def stop_listening_def Let_def
      split: sum.splits prod.splits)

text \<open>
  C7. \<open>toggleListening\<close> is called while the component is not marked listening and the
  referenced recognizer is already started, so that \<open>start()\<close> throws InvalidStateError;
  no other session is active. The call returns normally and leaves the status alone: the
  old recognizer is aborted, a new one is created, referenced and started, and the new
  one is the only active session afterwards.
\<close>

theorem toggle_restarts_started_recognizer:
  assumes "recognitionRef w = Some i" and "rec_at w i = Some r" and "started r"
    and "\<not> listening w" and "has_api w" and "set (active_sessions w) \<subseteq> {i}"
  shows "toggleListening w =
           Inr (w\<lparr>recs := (recs w)[i := r\<lparr>capturing := False,
                                          rec_calls := rec_calls r @ [CallAbort]\<rparr>]
                          @ [\<lparr>rec_lang = inputLang w, closure_original = original w,
                              started = True, capturing = True, rec_calls = [CallStart]\<rparr>],
                  recognitionRef := Some (length (recs w))\<rparr>)
       \<and> active_sessions (projr (toggleListening w)) = [length (recs w)]"
proof -
  let ?old = "r\<lparr>capturing := False, rec_calls := rec_calls r @ [CallAbort]\<rparr>"
  let ?new = "\<lparr>rec_lang = inputLang w, closure_original = original w,
                started = True, capturing = True, rec_calls = [CallStart]\<rparr>"
  let ?w' = "w\<lparr>recs := (recs w)[i := ?old] @ [?new], recognitionRef := Some (length (recs w))\<rparr>"
  have i: "i < length (recs w)" and r: "recs w ! i = r"
    using assms(2) by (auto simp: rec_at_def split: if_splits)
  have eq: "toggleListening w = Inr ?w'"
    using assms i r
    by (simp add: toggleListening_def start_listening_def call_rec_def rec_at_def rec_start_def
        abort_quietly_def rec_abort_def createRecognition_def Let_def nth_append
        list_update_append)
  have quiet: "\<forall>j \<in> set [0..<length (recs w)]. \<not> capturing (((recs w)[i := ?old] @ [?new]) ! j)"
  proof
    fix j assume "j \<in> set [0..<length (recs w)]"
    then have j: "j < length (recs w)" by simp
    show "\<not> capturing (((recs w)[i := ?old] @ [?new]) ! j)"
    proof (cases "j = i")
      case True
      then show ?thesis using i by (simp add: nth_append)
    next
      case False
      have "j \<notin> set (active_sessions w)" using assms(6) False by auto
      then have "\<not> capturing (recs w ! j)" using j by (simp add: active_sessions_def)
      then show ?thesis using j False by (simp add: nth_append)
    qed
  qed
  have "filter (\<lambda>j. capturing (((recs w)[i := ?old] @ [?new]) ! j)) [0..<length (recs w)] = []"
    using quiet by (simp add: filter_empty_conv)
  then have "active_sessions ?w' = [length (recs w)]"
    by (simp add: active_sessions_def nth_append)
  with eq show ?thesis by simp
qed

text \<open>
  C7 on a double click: the first call starts the recognizer of the first render; the
  second comes before the \<open>start\<close> event has set the listening flag.
\<close>

theorem toggle_restarts_started_recognizer_witness:
  "toggleListening demo_world = Inr starting_world
   \<and> recognitionRef starting_world = Some 0
   \<and> map started (recs starting_world) = [True] \<and> \<not> listening starting_world
   \<and> has_api starting_world \<and> set (active_sessions starting_world) \<subseteq> {0}
   \<and> map rec_calls (recs (projr (toggleListening starting_world)))
       = [[CallStart, CallAbort], [CallStart]]
   \<and> recognitionRef (projr (toggleListening starting_world)) = Some 1
   \<and> status (projr (toggleListening starting_world)) = Idle
   \<and> active_sessions (projr (toggleListening starting_world)) = [1]"
proof -
  let ?r = "\<lparr>rec_lang = lit ''en-US'', closure_original = [], started = True,
              capturing = True, rec_calls = [CallStart]\<rparr>"
  have first: "toggleListening demo_world = Inr starting_world"
    by (simp add: starting_world_def demo_world_eq toggleListening_def start_listening_def
        call_rec_def rec_at_def rec_start_def)
  have h1: "recognitionRef starting_world = Some 0"
    and h2: "rec_at starting_world 0 = Some ?r" and h3: "started ?r"
    and h4: "\<not> listening starting_world" and h5: "has_api starting_world"
    and h6: "set (active_sessions starting_world) \<subseteq> {0}"
    by (simp_all add: starting_world_def demo_world_eq rec_at_def active_sessions_def)
  note t = toggle_restarts_started_recognizer [OF h1 h2 h3 h4 h5 h6]
  have len: "length (recs starting_world) = 1" by (simp add: starting_world_def)
  from t have eq: "toggleListening starting_world =
      Inr (starting_world\<lparr>recs := (recs starting_world)
               [0 := ?r\<lparr>capturing := False, rec_calls := rec_calls ?r @ [CallAbort]\<rparr>]
             @ [\<lparr>rec_lang = inputLang starting_world,
                 closure_original = original starting_world,
                 started = True, capturing = True, rec_calls = [CallStart]\<rparr>],
           recognitionRef := Some (length (recs starting_world))\<rparr>)"
    by (rule conjunct1)
  from t have "active_sessions (projr (toggleListening starting_world))
                 = [length (recs starting_world)]"
    by (rule conjunct2)
  then have act: "active_sessions (projr (toggleListening starting_world)) = [1]"
    by (simp only: len)
  have calls: "map rec_calls (recs (projr (toggleListening starting_world)))
                 = [[CallStart, CallAbort], [CallStart]]"
    and ref: "recognitionRef (projr (toggleListening starting_world)) = Some 1"
    and st: "status (projr (toggleListening starting_world)) = Idle"
    unfolding eq by (simp_all add: starting_world_def demo_world_eq)
  have "map started (recs starting_world) = [True]" by (simp add: starting_world_def)
  then show ?thesis using first h1 h4 h5 h6 act calls ref st by simp
qed

text \<open>
  C8. A request whose \<open>text\<close> is a non-empty string, at a server whose
  \<open>OPENAI_API_KEY\<close> is not set: the handler answers with status 200 and the body
  \<open>{translated: notice + text}\<close>, the notice being
  ``(OPENAI_API_KEY not set on server) ''.
\<close>

theorem api_translate_without_key:
  "req_text req = Some text \<Longrightarrow> text \<noteq> [] \<Longrightarrow>
     api_translate None req
       = Responds \<lparr>http_status = 200,
                   http_body = JObj [(lit ''translated'', JStr (key_notice @ text))]\<rparr>
     \<and> key_notice = lit ''(OPENAI_API_KEY not set on server) ''"
  by (simp add: api_translate_def keyless_response_def key_notice_def)

theorem api_translate_without_key_witness:
  "lit ''chest pain'' \<noteq> []
   \<and> api_translate None \<lparr>req_text = Some (lit ''chest pain''), req_outputLang = Some (lit ''es'')\<rparr>
       = Responds \<lparr>http_status = 200,
                   http_body = JObj [(lit ''translated'', JStr (key_notice @ lit ''chest pain''))]\<rparr>"
proof -
  have h1: "req_text \<lparr>req_text = Some (lit ''chest pain''), req_outputLang = Some (lit ''es'')\<rparr>
              = Some (lit ''chest pain'')" by simp
  have h2: "lit ''chest pain'' \<noteq> []" by (simp add: lit_simps)
  from api_translate_without_key [OF h1 h2] h2 show ?thesis by simp
qed

text \<open>
  C9. With no translation (\<open>translated\<close> is the empty string), \<open>speak\<close> returns at
  once: no call reaches the synthesis engine and nothing in the component or its
  environment changes.
\<close>

theorem speak_without_translation:
  "translated w = JStr [] \<Longrightarrow> speak w = Inr w"
  by (simp add: speak_def)

theorem speak_without_translation_witness:
  "translated demo_world = JStr [] \<and> speak demo_world = Inr demo_world
   \<and> synth demo_world = Some \<lparr>speaking = False, voices = [], synth_calls = []\<rparr>"
proof -
  have h: "translated demo_world = JStr []" by (simp add: demo_world_eq)
  from speak_without_translation [OF h] h show ?thesis
    by (simp add: demo_world_eq demo_synth_def)
qed

subsection \<open>Clearing\<close>

text \<open>
  C10. \<open>clearAll\<close> resets the transcript, the translation result and the last-result
  reference to the empty string, and leaves every other part of the state as it was: the
  status, the listening flag, both language selections, the recognizer reference and
  whatever else the state is extended with.
\<close>

theorem clearAll_frame:
  "original (clearAll s) = []
   \<and> translated (clearAll s) = JStr []
   \<and> lastResultRef (clearAll s) = []
   \<and> status (clearAll s) = status s
   \<and> listening (clearAll s) = listening s
   \<and> inputLang (clearAll s) = inputLang s
   \<and> outputLang (clearAll s) = outputLang s
   \<and> recognitionRef (clearAll s) = recognitionRef s
   \<and> state.more (clearAll s) = state.more s"
  by (simp add: clearAll_def)

end
